theory Spec2Isabelle
  imports Main
begin

section \<open>TikZ preview tracking (src/components/tikzpreview.ts)\<close>

text \<open>
  A shallow embedding of the class \<open>TikzPictureView\<close>: the tracked pictures of a
  document, the way their ranges follow text edits (\<open>onFileChange\<close>,
  \<open>processModificationToTikzPicture\<close>), the preamble cache (\<open>checkPreamble\<close>) and the
  lookup of a picture by range (\<open>getTikzEntry\<close>).

  Objects that the TypeScript shares by reference (the collection of a file and its
  picture entries) live in stores indexed by addresses; mutation is an update of the store.
  Calls to collaborators outside the class (file system, child processes, the viewer,
  timers) are recorded, in call order, in a trace of effects; what they answer is read from
  an environment record.
\<close>

subsection \<open>Editor positions and ranges\<close>

text \<open>
  \<open>vscode.Position\<close> and \<open>vscode.Range\<close> belong to the editor API. Their constructors and
  comparison methods are modelled as the API defines them: a position's constructor rejects
  a negative line or character, \<open>translate\<close> builds a new position unless both deltas
  are zero, and the range constructor orders its two arguments.
\<close>

datatype error =
    IllegalArgument      \<comment> \<open>\<open>new Position\<close> with a negative line or character\<close>
  | IllegalLine          \<comment> \<open>\<open>document.lineAt\<close> outside the document\<close>
  | ProcessError string  \<comment> \<open>the \<open>error\<close> event of a child process\<close>

record Position =
  line :: int
  character :: int

record Range =
  start :: Position
  end' :: Position

definition newPosition :: "int \<Rightarrow> int \<Rightarrow> error + Position" where
  "newPosition l c =
     (if l < 0 then Inl IllegalArgument
      else if c < 0 then Inl IllegalArgument
      else Inr \<lparr>line = l, character = c\<rparr>)"

definition isBefore :: "Position \<Rightarrow> Position \<Rightarrow> bool" where
  "isBefore p q =
     (if line p < line q then True
      else if line q < line p then False
      else character p < character q)"

definition isBeforeOrEqual :: "Position \<Rightarrow> Position \<Rightarrow> bool" where
  "isBeforeOrEqual p q =
     (if line p < line q then True
      else if line q < line p then False
      else character p \<le> character q)"

definition isAfter :: "Position \<Rightarrow> Position \<Rightarrow> bool" where
  "isAfter p q = (\<not> isBeforeOrEqual p q)"

definition isEqualPos :: "Position \<Rightarrow> Position \<Rightarrow> bool" where
  "isEqualPos p q = (line p = line q \<and> character p = character q)"

definition translate :: "Position \<Rightarrow> int \<Rightarrow> int \<Rightarrow> error + Position" where
  "translate p lineDelta characterDelta =
     (if lineDelta = 0 \<and> characterDelta = 0 then Inr p
      else newPosition (line p + lineDelta) (character p + characterDelta))"

definition newRange :: "Position \<Rightarrow> Position \<Rightarrow> Range" where
  "newRange a b =
     (if isBefore a b then \<lparr>start = a, end' = b\<rparr> else \<lparr>start = b, end' = a\<rparr>)"

definition isEqual :: "Range \<Rightarrow> Range \<Rightarrow> bool" where
  "isEqual r s = (isEqualPos (start r) (start s) \<and> isEqualPos (end' r) (end' s))"

text \<open>Positions and ranges as the editor hands them out.\<close>

definition wfPosition :: "Position \<Rightarrow> bool" where
  "wfPosition p = (0 \<le> line p \<and> 0 \<le> character p)"

definition wfRange :: "Range \<Rightarrow> bool" where
  "wfRange r = (wfPosition (start r) \<and> wfPosition (end' r) \<and> isBeforeOrEqual (start r) (end' r))"

subsection \<open>Text: newlines, comments and the environment markers\<close>

definition backslash :: char where
  "backslash = CHR 0x5C"

definition newline :: char where
  "newline = CHR 0x0A"

text \<open>\<open>text.split('\n').length - 1\<close>: the number of newline characters.\<close>

definition newlineCount :: "string \<Rightarrow> int" where
  "newlineCount s = int (length (filter (\<lambda>c. c = newline) s))"

text \<open>
  Modelled from the spec: \<open>stripComments\<close> is imported from \<open>../utils\<close>, which is not among
  the sources. The specification describes it as removing ``an unescaped comment-start
  character through end of line'', and \<open>generatePreamble\<close> spells the same operation out as
  \<open>replace(/([^\\]|^)%.*$/gm, '$1')\<close>. On one line of text this cuts the line at the first
  \<open>%\<close> that is the first character or follows a character other than a backslash.
\<close>

fun stripFrom :: "bool \<Rightarrow> string \<Rightarrow> string" where
  "stripFrom esc [] = []"
| "stripFrom esc (c # cs) =
     (if c = CHR ''%'' \<and> \<not> esc then [] else c # stripFrom (c = backslash) cs)"

definition stripComments :: "string \<Rightarrow> string" where
  "stripComments s = stripFrom False s"

text \<open>The class \<open>\w\<close> of JavaScript regular expressions.\<close>

definition isWordChar :: "char \<Rightarrow> bool" where
  "isWordChar c =
     (c \<in> set ''abcdefghijklmnopqrstuvwxyzABCDEFGHIJKLMNOPQRSTUVWXYZ0123456789_'')"

fun hasPrefix :: "string \<Rightarrow> string \<Rightarrow> bool" where
  "hasPrefix [] s = True"
| "hasPrefix (p # ps) [] = False"
| "hasPrefix (p # ps) (c # cs) = (p = c \<and> hasPrefix ps cs)"

fun includes_str :: "string \<Rightarrow> string \<Rightarrow> bool" where
  "includes_str [] pat = (pat = [])"
| "includes_str (c # cs) pat = (hasPrefix pat (c # cs) \<or> includes_str cs pat)"

text \<open>
  The two marker patterns are \<open>/\\begin{(?:tikzpicture|\w*tikz\w*)}/\<close> and
  \<open>/\\end{(?:tikzpicture|\w*tikz\w*)}/\<close>. After the keyword and the brace, both
  alternatives consume word characters only and must be followed by \<open>}\<close>, which is not a
  word character: a match at a given index exists exactly when the maximal run of word
  characters after the brace contains \<open>tikz\<close> and is followed by \<open>}\<close>, and its length is
  then fixed. \<open>matchAt\<close> gives that length.
\<close>

definition beginKeyword :: string where
  "beginKeyword = backslash # ''begin{''"

definition endKeyword :: string where
  "endKeyword = backslash # ''end{''"

definition matchAt :: "string \<Rightarrow> string \<Rightarrow> nat option" where
  "matchAt kw s =
     (if hasPrefix kw s then
        (let rest = drop (length kw) s;
             name = takeWhile isWordChar rest;
             after = dropWhile isWordChar rest
         in if includes_str name ''tikz'' \<and> hasPrefix ''}'' after
            then Some (length kw + length name + 1) else None)
      else None)"

text \<open>
  \<open>String.prototype.search\<close> and \<open>match\<close> report the leftmost match: its index and, for
  \<open>match\<close>, the matched text, of which only the length is used.
\<close>

fun regexMatch :: "string \<Rightarrow> string \<Rightarrow> (nat \<times> nat) option" where
  "regexMatch kw [] = (case matchAt kw [] of Some n \<Rightarrow> Some (0, n) | None \<Rightarrow> None)"
| "regexMatch kw (c # cs) =
     (case matchAt kw (c # cs) of
        Some n \<Rightarrow> Some (0, n)
      | None \<Rightarrow> (case regexMatch kw cs of
                   Some (i, n) \<Rightarrow> Some (Suc i, n)
                 | None \<Rightarrow> None))"

subsection \<open>The live document\<close>

text \<open>
  \<open>vscode.TextDocument\<close>, read through \<open>uri.fsPath\<close>, \<open>lineAt\<close> and \<open>getText\<close>. \<open>lineAt\<close>
  throws outside the document; \<open>getText\<close> first clamps the range to the document and
  joins the lines it covers with the document's own end-of-line sequence \<open>eol\<close>.
\<close>

record TextDocument =
  fsPath :: string
  eol :: string
  lines :: "string list"

definition lineAt :: "TextDocument \<Rightarrow> int \<Rightarrow> error + string" where
  "lineAt doc n =
     (if n < 0 \<or> int (length (lines doc)) \<le> n then Inl IllegalLine
      else Inr (lines doc ! nat n))"

definition validatePosition :: "TextDocument \<Rightarrow> Position \<Rightarrow> Position" where
  "validatePosition doc p =
     (if line p < 0 then \<lparr>line = 0, character = 0\<rparr>
      else if int (length (lines doc)) \<le> line p then
        \<lparr>line = int (length (lines doc)) - 1, character = int (length (last (lines doc)))\<rparr>
      else
        (let maxCharacter = int (length (lines doc ! nat (line p)))
         in if character p < 0 then p\<lparr>character := 0\<rparr>
            else if maxCharacter < character p then p\<lparr>character := maxCharacter\<rparr>
            else p))"

definition substring :: "string \<Rightarrow> int \<Rightarrow> int \<Rightarrow> string" where
  "substring s a b = take (nat b - nat a) (drop (nat a) s)"

fun joinLines :: "string \<Rightarrow> string list \<Rightarrow> string" where
  "joinLines sep [] = []"
| "joinLines sep [l] = l"
| "joinLines sep (l # ls) = l @ sep @ joinLines sep ls"

definition getText :: "TextDocument \<Rightarrow> Range \<Rightarrow> string" where
  "getText doc r =
     (if lines doc = [] then []
      else
        (let s = validatePosition doc (start r); e = validatePosition doc (end' r)
         in if isEqualPos s e then []
            else if line s = line e then
              substring (lines doc ! nat (line s)) (character s) (character e)
            else
              joinLines (eol doc)
                ([drop (nat (character s)) (lines doc ! nat (line s))]
                 @ take (nat (line e) - nat (line s) - 1) (drop (nat (line s) + 1) (lines doc))
                 @ [take (nat (character e)) (lines doc ! nat (line e))])))"

subsection \<open>Collections, pictures and the state of the class\<close>

text \<open>
  \<open>IFileTikzPicture\<close> and \<open>IFileTikzCollection\<close>. Both interfaces have a field
  \<open>lastChange\<close>; the picture's is written \<open>lastChange'\<close> here, and \<open>range\<close> is written
  \<open>range'\<close>. The array \<open>tikzPictures\<close> holds references to picture objects. Of the
  fields of the class, \<open>extension\<close> is represented by the environment below, and
  \<open>initalised\<close>, which only guards the creation of the temp folder in \<open>view\<close>, is
  left out.
\<close>

type_synonym ref = nat

record IFileTikzPicture =
  range' :: Range
  content :: string
  tempFile :: string
  lastChange' :: int

record IFileTikzCollection =
  texFileLocation :: string
  tempDir :: string
  tikzPictures :: "ref list"
  preamble :: string
  lastChange :: int

text \<open>\<open>vscode.TextDocumentContentChangeEvent\<close>: the replaced range and the new text.\<close>

record TextDocumentContentChangeEvent =
  crange :: Range
  ctext :: string

text \<open>
  One constructor for each call that leaves the class, with the file it is about:
  \<open>fs.writeFileSync\<close>, \<open>latexmk\<close> (run by \<open>execSync\<close> on the base name of the file, in its
  directory), \<open>latexmk -C\<close>, \<open>fs.unlinkSync\<close>, \<open>pdftex -ini\<close> (started by \<open>cp.exec\<close>), the two
  viewer calls, \<open>setTimeout\<close> re-entering \<open>onFileChange\<close>, and the call of \<open>checkPreamble\<close>
  that \<open>onFileChange\<close> starts without awaiting it.
\<close>

datatype effect =
    WriteFile string string
  | Latexmk string
  | LatexmkClean string
  | Unlink string
  | Pdftex string
  | RefreshExistingViewer string
  | OpenTab string
  | SetTimeout int
  | CheckPreambleCall ref

text \<open>The first event of the \<open>pdftex\<close> child process: \<open>exit\<close> with its code, or \<open>error\<close>.\<close>

datatype processEvent = Exit int | Error string

text \<open>
  What the collaborators answer during one call. \<open>now k\<close> is the \<open>k\<close>-th evaluation of
  \<open>+new Date()\<close> in the call, counted from 0. \<open>delay\<close> and \<open>timeout\<close> are the two settings of
  \<open>latex-utilities.tikzpreview\<close>. \<open>getClientSet f\<close> is the size of the set the viewer returns
  for the PDF of the temp file \<open>f\<close> (the source derives the URI from \<open>f\<close> by replacing the
  extension and upper-casing), \<open>None\<close> when it returns \<open>undefined\<close>. \<open>generatePreamble\<close>
  stands for the method of that name, which reads the settings and the files on disk; only
  its result is used. \<open>pdftex f\<close> is the first event of the process started on the preamble
  file \<open>f\<close>. Writing files and running \<open>latexmk\<close> are taken to return; the source catches
  a failing \<open>latexmk\<close> in \<open>updateTikzPicture\<close> and goes on.
\<close>

record Environment =
  now :: "nat \<Rightarrow> int"
  delay :: int
  timeout :: int
  getClientSet :: "string \<Rightarrow> nat option"
  generatePreamble :: "IFileTikzCollection \<Rightarrow> int option \<Rightarrow> string"
  pdftex :: "string \<Rightarrow> processEvent"

record TikzPictureView =
  tikzCollections :: "string \<Rightarrow> ref option"
  collections :: "ref \<Rightarrow> IFileTikzCollection"
  pictures :: "ref \<Rightarrow> IFileTikzPicture"
  nextRef :: ref
  trace :: "effect list"

definition bindE :: "error + 'a \<Rightarrow> ('a \<Rightarrow> error + 'b) \<Rightarrow> error + 'b" where
  "bindE m f = (case m of Inl e \<Rightarrow> Inl e | Inr x \<Rightarrow> f x)"

subsection \<open>Small library functions\<close>

text \<open>\<open>path.join\<close> of a directory and a file name (normalisation is not modelled).\<close>

definition pathJoin :: "string \<Rightarrow> string \<Rightarrow> string" where
  "pathJoin d f = d @ ''/'' @ f"

text \<open>\<open>Array.prototype.indexOf\<close>: the first index, or \<open>-1\<close>.\<close>

fun indexOf :: "'a list \<Rightarrow> 'a \<Rightarrow> int" where
  "indexOf [] x = - 1"
| "indexOf (y # ys) x =
     (if y = x then 0 else (let k = indexOf ys x in if k < 0 then - 1 else k + 1))"

text \<open>
  \<open>xs.splice(k, 1)\<close>: a negative \<open>k\<close> counts from the end (and stops at 0), a \<open>k\<close> beyond the
  end removes nothing.
\<close>

definition splice1 :: "'a list \<Rightarrow> int \<Rightarrow> 'a list" where
  "splice1 xs k =
     (let len = int (length xs);
          s = (if k < 0 then max (len + k) 0 else min k len)
      in take (nat s) xs @ drop (nat s + 1) xs)"

text \<open>The remainder operator of JavaScript and the decimal notation of an integer.\<close>

definition jsRem :: "int \<Rightarrow> int \<Rightarrow> int" where
  "jsRem a b = sgn a * (\<bar>a\<bar> mod \<bar>b\<bar>)"

fun digitsOf :: "nat \<Rightarrow> string" where
  "digitsOf n =
     (if n < 10 then [char_of (48 + n)] else digitsOf (n div 10) @ [char_of (48 + n mod 10)])"

declare digitsOf.simps [simp del]

definition numberToString :: "int \<Rightarrow> string" where
  "numberToString i = (if i < 0 then CHR ''-'' # digitsOf (nat (- i)) else digitsOf (nat i))"

subsection \<open>Compiling and releasing a picture\<close>

definition hasViewer :: "Environment \<Rightarrow> string \<Rightarrow> bool" where
  "hasViewer env f = (case getClientSet env f of None \<Rightarrow> False | Some n \<Rightarrow> n \<noteq> 0)"

definition standalone :: "string \<Rightarrow> string" where
  "standalone body =
     ''%&preamble'' @ [newline] @ backslash # ''begin{document}'' @ [newline] @ body
       @ [newline] @ backslash # ''end{document}''"

definition updateTikzPicture :: "Environment \<Rightarrow> ref \<Rightarrow> TikzPictureView \<Rightarrow> TikzPictureView" where
  "updateTikzPicture env p st =
     (let tikzPicture = pictures st p
      in st\<lparr>trace := trace st @
           [WriteFile (tempFile tikzPicture) (standalone (content tikzPicture)),
            Latexmk (tempFile tikzPicture),
            (if hasViewer env (tempFile tikzPicture)
             then RefreshExistingViewer (tempFile tikzPicture)
             else OpenTab (tempFile tikzPicture))]\<rparr>)"

text \<open>
  \<open>cleanupTikzPicture\<close> runs \<open>latexmk -C\<close> and then deletes the temp file. As said for
  the environment, the \<open>latexmk\<close> call is taken to return; were it to throw, the deletion
  would not happen and only the first of the two effects would be there. The function is
  asynchronous and never awaited, so no exception of it reaches \<open>onFileChange\<close>.
\<close>

definition cleanupTikzPicture :: "ref \<Rightarrow> TikzPictureView \<Rightarrow> TikzPictureView" where
  "cleanupTikzPicture p st =
     st\<lparr>trace := trace st @
          [LatexmkClean (tempFile (pictures st p)), Unlink (tempFile (pictures st p))]\<rparr>"

subsection \<open>getTikzEntry\<close>

fun findEntry :: "(ref \<Rightarrow> IFileTikzPicture) \<Rightarrow> Range \<Rightarrow> ref list \<Rightarrow> ref option" where
  "findEntry h r [] = None"
| "findEntry h r (p # ps) = (if isEqual (range' (h p)) r then Some p else findEntry h r ps)"

text \<open>
  The request \<open>{range, content}\<close> is passed as two arguments. A new entry is a new object,
  at the next free address.
\<close>

definition getTikzEntry ::
  "Environment \<Rightarrow> ref \<Rightarrow> Range \<Rightarrow> string \<Rightarrow> TikzPictureView \<Rightarrow> ref \<times> TikzPictureView" where
  "getTikzEntry env c r cont st =
     (let tikzCollection = collections st c
      in case findEntry (pictures st) r (tikzPictures tikzCollection) of
           Some p \<Rightarrow> (p, st)
         | None \<Rightarrow>
             (let file = pathJoin (tempDir tikzCollection)
                           (''tikzpicture-'' @ numberToString (jsRem (now env 0) 100000000) @ ''.tex'');
                  p = nextRef st
              in (p, st\<lparr>pictures := (pictures st)
                           (p := \<lparr>range' = r, content = cont, tempFile = file,
                                  lastChange' = now env 1\<rparr>),
                         collections := (collections st)
                           (c := tikzCollection\<lparr>tikzPictures := tikzPictures tikzCollection @ [p]\<rparr>),
                         nextRef := Suc p\<rparr>)))"

subsection \<open>checkPreamble\<close>

datatype status = Stable | Updated

text \<open>
  \<open>precompilePreamble\<close> writes the preamble file and starts \<open>pdftex\<close>; its promise resolves
  on the \<open>exit\<close> event, whatever the exit code, and rejects on the \<open>error\<close> event.
  \<open>preambleSource\<close> is the text written to the preamble file.
\<close>

definition preambleSource :: "string \<Rightarrow> string" where
  "preambleSource pre =
     backslash # ''documentclass{standalone}'' @ [newline, newline] @ pre
       @ [newline, newline] @ backslash # ''begin{document}'' @ backslash # ''end{document}''"

definition precompilePreamble ::
  "Environment \<Rightarrow> string \<Rightarrow> string \<Rightarrow> TikzPictureView \<Rightarrow> (error + unit) \<times> TikzPictureView" where
  "precompilePreamble env file pre st =
     (let st' = st\<lparr>trace := trace st @
                  [WriteFile file (preambleSource pre), Pdftex file]\<rparr>
      in case pdftex env file of
           Exit code \<Rightarrow> (Inr (), st')
         | Error err \<Rightarrow> (Inl (ProcessError err), st'))"

text \<open>
  The result is the value or the rejection of the promise, with the state it leaves.
\<close>

definition checkPreamble ::
  "Environment \<Rightarrow> ref \<Rightarrow> int option \<Rightarrow> TikzPictureView \<Rightarrow> (error + status) \<times> TikzPictureView" where
  "checkPreamble env c maxParsedLine st =
     (let generatedPreamble = generatePreamble env (collections st c) maxParsedLine
      in if preamble (collections st c) \<noteq> generatedPreamble then
           (let st1 = st\<lparr>collections := (collections st)
                          (c := (collections st c)\<lparr>preamble := generatedPreamble\<rparr>)\<rparr>
            in case precompilePreamble env
                      (pathJoin (tempDir (collections st1 c)) ''preamble.tex'')
                      (preamble (collections st1 c)) st1 of
                 (Inl e, st2) \<Rightarrow> (Inl e, st2)
               | (Inr u, st2) \<Rightarrow>
                   (Inr Updated,
                    foldl (\<lambda>s p. updateTikzPicture env p s) st2 (tikzPictures (collections st2 c))))
         else (Inr Stable, st))"

subsection \<open>view\<close>

text \<open>
  \<open>view\<close> looks up the collection of the document, resolves the entry with
  \<open>getTikzEntry\<close> and then runs the part modelled here: the preamble check up to the
  line where the picture starts, and the recompilation of the entry \<open>p\<close> when the preamble
  is stable.
\<close>

definition viewAfterEntry ::
  "Environment \<Rightarrow> ref \<Rightarrow> ref \<Rightarrow> Range \<Rightarrow> TikzPictureView \<Rightarrow> (error + unit) \<times> TikzPictureView" where
  "viewAfterEntry env c p r st =
     (case checkPreamble env c (Some (line (start r))) st of
        (Inl e, st') \<Rightarrow> (Inl e, st')
      | (Inr preambleStatus, st') \<Rightarrow>
          (Inr (), if preambleStatus = Stable then updateTikzPicture env p st' else st'))"

subsection \<open>Re-anchoring a modified picture\<close>

text \<open>
  The two \<open>do ... while\<close> loops of \<open>processModificationToTikzPicture\<close>. The argument
  \<open>lineNo\<close> is the counter before \<open>++lineNo\<close>; \<open>bound\<close> is the line the loop condition
  compares with. The search for the opening marker matches the line as it is; the search
  for the closing marker matches it after \<open>stripComments\<close>.
\<close>

function startLoop :: "TextDocument \<Rightarrow> int \<Rightarrow> int \<Rightarrow> error + (int \<times> nat) option" where
  "startLoop doc lineNo bound =
     (case lineAt doc (lineNo + 1) of
        Inl e \<Rightarrow> Inl e
      | Inr l \<Rightarrow>
          (case regexMatch beginKeyword l of
             Some (i, n) \<Rightarrow> Inr (Some (lineNo + 1, i))
           | None \<Rightarrow> if lineNo + 1 \<le> bound then startLoop doc (lineNo + 1) bound
                     else Inr None))"
  by pat_completeness auto
termination
  by (relation "measure (\<lambda>(doc, lineNo, bound). nat (bound - lineNo))") auto

function endLoop :: "TextDocument \<Rightarrow> int \<Rightarrow> int \<Rightarrow> error + (int \<times> nat \<times> nat) option" where
  "endLoop doc lineNo bound =
     (case lineAt doc (lineNo + 1) of
        Inl e \<Rightarrow> Inl e
      | Inr l \<Rightarrow>
          (case regexMatch endKeyword (stripComments l) of
             Some (i, n) \<Rightarrow> Inr (Some (lineNo + 1, i, n))
           | None \<Rightarrow> if lineNo + 1 \<le> bound then endLoop doc (lineNo + 1) bound
                     else Inr None))"
  by pat_completeness auto
termination
  by (relation "measure (\<lambda>(doc, lineNo, bound). nat (bound - lineNo))") auto

declare startLoop.simps [simp del] endLoop.simps [simp del]

text \<open>The block computing \<open>startLocation\<close>; \<open>None\<close> is the source's \<open>null\<close>.\<close>

definition startLocation ::
  "TextDocument \<Rightarrow> IFileTikzPicture \<Rightarrow> TextDocumentContentChangeEvent \<Rightarrow> error + Position option" where
  "startLocation doc tikzPicture change =
     (if line (start (crange change)) \<le> line (start (range' tikzPicture)) then
        bindE (lineAt doc (line (start (range' tikzPicture)))) (\<lambda>startLine.
          case regexMatch beginKeyword (stripComments startLine) of
            Some (tikzPictureStartIndex, n) \<Rightarrow>
              bindE (translate (start (range' tikzPicture)) 0
                       (int tikzPictureStartIndex - character (start (range' tikzPicture))))
                (\<lambda>p. Inr (Some p))
          | None \<Rightarrow>
              bindE (startLoop doc (line (start (crange change)) - 1)
                       (line (end' (range' tikzPicture))))
                (\<lambda>startMatch. case startMatch of
                    Some (lineNo, i) \<Rightarrow> bindE (newPosition lineNo (int i)) (\<lambda>p. Inr (Some p))
                  | None \<Rightarrow> Inr None))
      else Inr None)"

text \<open>The block computing \<open>endLocation\<close>.\<close>

definition endLocation ::
  "TextDocument \<Rightarrow> IFileTikzPicture \<Rightarrow> TextDocumentContentChangeEvent \<Rightarrow> error + Position option" where
  "endLocation doc tikzPicture change =
     (if line (end' (range' tikzPicture)) \<le> line (end' (crange change)) then
        bindE (endLoop doc (line (start (range' tikzPicture)) - 1) (line (end' (crange change))))
          (\<lambda>endMatch. case endMatch of
              Some (lineNo, i, n) \<Rightarrow>
                bindE (newPosition lineNo (int i + int n)) (\<lambda>p. Inr (Some p))
            | None \<Rightarrow> Inr None)
      else Inr None)"

text \<open>
  The source assigns the new range and content to the picture object; every exception it
  can raise comes before the assignment. The model returns the updated picture, which the
  caller stores.
\<close>

definition processModificationToTikzPicture ::
  "TextDocument \<Rightarrow> IFileTikzPicture \<Rightarrow> TextDocumentContentChangeEvent \<Rightarrow> int
     \<Rightarrow> error + IFileTikzPicture" where
  "processModificationToTikzPicture doc tikzPicture change lineDelta =
     bindE (startLocation doc tikzPicture change) (\<lambda>startLoc.
     bindE (endLocation doc tikzPicture change) (\<lambda>endLoc.
     bindE (case endLoc of
              Some e \<Rightarrow> Inr e
            | None \<Rightarrow> translate (end' (range' tikzPicture)) lineDelta 0) (\<lambda>e.
       (let r = newRange (case startLoc of Some s \<Rightarrow> s | None \<Rightarrow> start (range' tikzPicture)) e
        in Inr (tikzPicture\<lparr>range' := r, content := getText doc r\<rparr>)))))"

subsection \<open>onFileChange\<close>

definition lineDeltaOf :: "TextDocumentContentChangeEvent \<Rightarrow> int" where
  "lineDeltaOf change =
     newlineCount (ctext change) - (line (end' (crange change)) - line (start (crange change)))"

text \<open>\<open>tikzPictures.splice(tikzPictures.indexOf(tikzPicture), 1)\<close> on the array of \<open>c\<close>.\<close>

definition splicePicture :: "ref \<Rightarrow> ref \<Rightarrow> TikzPictureView \<Rightarrow> TikzPictureView" where
  "splicePicture c p st =
     st\<lparr>collections := (collections st)
          (c := (collections st c)
             \<lparr>tikzPictures := splice1 (tikzPictures (collections st c))
                                (indexOf (tikzPictures (collections st c)) p)\<rparr>)\<rparr>"

text \<open>
  The body of the loop over \<open>changes\<close>, for the picture object \<open>p\<close> of the collection \<open>c\<close>.
  It works on the list \<open>tikzPicturesToUpdate\<close> and the state. When an exception escapes,
  the result is the exception alone.
\<close>

definition applyChange ::
  "TextDocument \<Rightarrow> ref \<Rightarrow> ref \<Rightarrow> TextDocumentContentChangeEvent
     \<Rightarrow> ref list \<times> TikzPictureView \<Rightarrow> error + ref list \<times> TikzPictureView" where
  "applyChange doc c p change acc =
     (case acc of (tikzPicturesToUpdate, st) \<Rightarrow>
       (let tikzPicture = pictures st p;
            lineDelta = lineDeltaOf change
        in if isBefore (end' (range' tikzPicture)) (start (crange change)) then
             Inr (tikzPicturesToUpdate, st)
           else if isAfter (start (range' tikzPicture)) (end' (crange change)) then
             bindE (translate (start (range' tikzPicture)) lineDelta 0) (\<lambda>s.
             bindE (translate (end' (range' tikzPicture)) lineDelta 0) (\<lambda>e.
               Inr (tikzPicturesToUpdate,
                    st\<lparr>pictures := (pictures st)(p := tikzPicture\<lparr>range' := newRange s e\<rparr>)\<rparr>)))
           else if isAfter (end' (crange change)) (start (range' tikzPicture)) \<and>
                   line (end' (crange change)) - lineDelta < line (start (range' tikzPicture)) then
             Inr (tikzPicturesToUpdate, cleanupTikzPicture p (splicePicture c p st))
           else
             bindE (processModificationToTikzPicture doc tikzPicture change lineDelta)
               (\<lambda>tikzPicture'.
                  Inr (if List.member tikzPicturesToUpdate p then tikzPicturesToUpdate
                       else tikzPicturesToUpdate @ [p],
                       st\<lparr>pictures := (pictures st)(p := tikzPicture')\<rparr>))))"

fun forChanges ::
  "TextDocument \<Rightarrow> ref \<Rightarrow> ref \<Rightarrow> TextDocumentContentChangeEvent list
     \<Rightarrow> ref list \<times> TikzPictureView \<Rightarrow> error + ref list \<times> TikzPictureView" where
  "forChanges doc c p [] acc = Inr acc"
| "forChanges doc c p (change # changes) acc =
     bindE (applyChange doc c p change acc) (forChanges doc c p changes)"

text \<open>
  The viewer test that opens the loop over the pictures: no client set, or an empty one.
\<close>

definition noViewer :: "Environment \<Rightarrow> string \<Rightarrow> bool" where
  "noViewer env f = (case getClientSet env f of None \<Rightarrow> True | Some n \<Rightarrow> n = 0)"

lemma length_splice1: "length (splice1 xs k) \<le> length xs"
  by (auto simp: splice1_def Let_def)

lemma applyChange_length:
  "applyChange doc c p change (tu, st) = Inr (tu', st') \<Longrightarrow>
   length (tikzPictures (collections st' c)) \<le> length (tikzPictures (collections st c))"
  by (auto simp: applyChange_def Let_def bindE_def cleanupTikzPicture_def splicePicture_def
        length_splice1 split: if_splits sum.splits)

lemma forChanges_length:
  "forChanges doc c p changes acc = Inr acc' \<Longrightarrow>
   length (tikzPictures (collections (snd acc') c)) \<le> length (tikzPictures (collections (snd acc) c))"
proof (induction changes arbitrary: acc)
  case Nil
  then show ?case by simp
next
  case (Cons change changes)
  from Cons.prems obtain mid where
    m: "applyChange doc c p change acc = Inr mid" and r: "forChanges doc c p changes mid = Inr acc'"
    by (auto simp: bindE_def split: sum.splits)
  from m have "length (tikzPictures (collections (snd mid) c)) \<le> length (tikzPictures (collections (snd acc) c))"
    using applyChange_length [of doc c p change "fst acc" "snd acc" "fst mid" "snd mid"] by simp
  with Cons.IH [OF r] show ?case by linarith
qed

text \<open>
  \<open>for (const tikzPicture of tikzPictures)\<close>: the array iterator keeps an index \<open>i\<close> and
  reads the array, which the body shortens with \<open>splice\<close>, anew at every step.
\<close>

function forPictures ::
  "Environment \<Rightarrow> TextDocument \<Rightarrow> ref \<Rightarrow> TextDocumentContentChangeEvent list \<Rightarrow> nat
     \<Rightarrow> ref list \<times> TikzPictureView \<Rightarrow> error + ref list \<times> TikzPictureView" where
  "forPictures env doc c changes i acc =
     (case acc of (tikzPicturesToUpdate, st) \<Rightarrow>
        if i < length (tikzPictures (collections st c)) then
          (let p = tikzPictures (collections st c) ! i
           in if noViewer env (tempFile (pictures st p)) then
                forPictures env doc c changes (Suc i)
                  (tikzPicturesToUpdate, cleanupTikzPicture p (splicePicture c p st))
              else
                (case forChanges doc c p changes (tikzPicturesToUpdate, st) of
                   Inl e \<Rightarrow> Inl e
                 | Inr acc' \<Rightarrow> forPictures env doc c changes (Suc i) acc'))
        else Inr (tikzPicturesToUpdate, st))"
  by pat_completeness auto
termination
proof (relation "measure (\<lambda>(env, doc, c, changes, i, acc). length (tikzPictures (collections (snd acc) c)) - i)", goal_cases)
  case 1
  show ?case by simp
next
  case (2 env doc c changes i acc tu st p)
  have "length (tikzPictures (collections (cleanupTikzPicture p (splicePicture c p st)) c))
          \<le> length (tikzPictures (collections st c))"
    by (simp add: cleanupTikzPicture_def splicePicture_def length_splice1)
  with 2 show ?case by auto
next
  case (3 env doc c changes i acc tu st p acc')
  from 3 have "length (tikzPictures (collections (snd acc') c)) \<le> length (tikzPictures (collections st c))"
    using forChanges_length [of doc c p changes acc acc'] by auto
  with 3 show ?case by auto
qed

declare forPictures.simps [simp del]

text \<open>
  \<open>onFileChange\<close>. The three readings of the clock are \<open>now env 0\<close> (the test against
  \<open>delay\<close>), \<open>now env 1\<close> (the value stored in \<open>lastChange\<close>) and \<open>now env 2\<close> (the test
  against \<open>timeout\<close>). The call of \<open>checkPreamble\<close> is not awaited: it is suspended at its
  first \<open>await\<close> and continues after this function has finished, so here it only leaves its
  mark in the trace.
\<close>

definition setLastChange :: "ref \<Rightarrow> int \<Rightarrow> TikzPictureView \<Rightarrow> TikzPictureView" where
  "setLastChange c t st =
     st\<lparr>collections := (collections st)(c := (collections st c)\<lparr>lastChange := t\<rparr>)\<rparr>"

definition onFileChange ::
  "Environment \<Rightarrow> TextDocument \<Rightarrow> TextDocumentContentChangeEvent list \<Rightarrow> bool
     \<Rightarrow> TikzPictureView \<Rightarrow> error + TikzPictureView" where
  "onFileChange env doc changes waitedDelay st =
     (case tikzCollections st (fsPath doc) of
        None \<Rightarrow> Inr st
      | Some c \<Rightarrow>
          if delay env = 0 then Inr st
          else if now env 0 - lastChange (collections st c) < delay env then
            (if \<not> waitedDelay
             then Inr ((setLastChange c (now env 1) st)
                         \<lparr>trace := trace st @ [SetTimeout (delay env)]\<rparr>)
             else Inr st)
          else
            (let st1 = setLastChange c (now env 1) st
             in if timeout env < now env 2 - lastChange (collections st1 c) then Inr st1
                else
                  bindE (forPictures env doc c changes 0
                           ([], st1\<lparr>trace := trace st1 @ [CheckPreambleCall c]\<rparr>))
                    (\<lambda>(tikzPicturesToUpdate, st2).
                       Inr (foldl (\<lambda>s p. updateTikzPicture env p s) st2 tikzPicturesToUpdate))))"

subsection \<open>Example inputs\<close>

text \<open>
  A six-line document with one picture on lines 2 to 4, tracked by the collection at
  address 0 as the picture object at address 1, and some edits around it.
\<close>

definition exampleDocument :: TextDocument where
  "exampleDocument =
     \<lparr>fsPath = ''a.tex'', eol = [newline],
      lines = [''A'', ''B'', beginKeyword @ ''tikzpicture}'', ''draw'',
               endKeyword @ ''tikzpicture}'', ''C'']\<rparr>"

definition examplePicture :: IFileTikzPicture where
  "examplePicture =
     \<lparr>range' = \<lparr>start = \<lparr>line = 2, character = 0\<rparr>, end' = \<lparr>line = 4, character = 17\<rparr>\<rparr>,
      content = ''picture'', tempFile = ''/t/1.tex'', lastChange' = 0\<rparr>"

definition exampleCollection :: IFileTikzCollection where
  "exampleCollection =
     \<lparr>texFileLocation = ''a.tex'', tempDir = ''/t'', tikzPictures = [1], preamble = [],
      lastChange = 0\<rparr>"

definition exampleState :: TikzPictureView where
  "exampleState =
     \<lparr>tikzCollections = (\<lambda>f. if f = ''a.tex'' then Some 0 else None),
      collections = (\<lambda>r. exampleCollection),
      pictures = (\<lambda>r. examplePicture),
      nextRef = 2,
      trace = []\<rparr>"

definition exampleEnvironment :: Environment where
  "exampleEnvironment =
     \<lparr>now = (\<lambda>k. 5000), delay = 100, timeout = 1000,
      getClientSet = (\<lambda>f. Some 1),
      generatePreamble = (\<lambda>c m. ''P''),
      pdftex = (\<lambda>f. Exit 0)\<rparr>"

definition editAbove :: TextDocumentContentChangeEvent where
  "editAbove =
     \<lparr>crange = \<lparr>start = \<lparr>line = 0, character = 0\<rparr>, end' = \<lparr>line = 1, character = 0\<rparr>\<rparr>,
      ctext = ''x''\<rparr>"

definition editBelow :: TextDocumentContentChangeEvent where
  "editBelow =
     \<lparr>crange = \<lparr>start = \<lparr>line = 5, character = 0\<rparr>, end' = \<lparr>line = 5, character = 1\<rparr>\<rparr>,
      ctext = ''D''\<rparr>"


definition twoPictureDocument :: TextDocument where
  "twoPictureDocument =
     \<lparr>fsPath = ''a.tex'', eol = [newline],
      lines = [''A'', ''B'', beginKeyword @ ''tikzpicture}'', ''draw'',
               endKeyword @ ''tikzpicture}'', ''D'', ''E'', beginKeyword @ ''tikzpicture}'',
               ''draw'', endKeyword @ ''tikzpicture}'']\<rparr>"


definition rangeBelow :: Range where
  "rangeBelow = \<lparr>start = \<lparr>line = 7, character = 0\<rparr>, end' = \<lparr>line = 9, character = 5\<rparr>\<rparr>"

definition secondPicture :: IFileTikzPicture where
  "secondPicture =
     \<lparr>range' = \<lparr>start = \<lparr>line = 7, character = 0\<rparr>, end' = \<lparr>line = 9, character = 17\<rparr>\<rparr>,
      content = ''second'', tempFile = ''/t/2.tex'', lastChange' = 0\<rparr>"

definition twoPictureState :: TikzPictureView where
  "twoPictureState =
     \<lparr>tikzCollections = (\<lambda>f. if f = ''a.tex'' then Some 0 else None),
      collections = (\<lambda>r. exampleCollection\<lparr>tikzPictures := [1, 2]\<rparr>),
      pictures = (\<lambda>r. if r = 2 then secondPicture else examplePicture),
      nextRef = 3,
      trace = []\<rparr>"

definition editInside :: TextDocumentContentChangeEvent where
  "editInside =
     \<lparr>crange = \<lparr>start = \<lparr>line = 3, character = 0\<rparr>, end' = \<lparr>line = 3, character = 3\<rparr>\<rparr>,
      ctext = ''draw''\<rparr>"

text \<open>Variants of the environment: a viewer without clients, a stable preamble, and three
  outcomes of the \<open>pdftex\<close> process.\<close>

definition closedViewerEnvironment :: Environment where
  "closedViewerEnvironment = exampleEnvironment\<lparr>getClientSet := (\<lambda>f. Some 0)\<rparr>"


definition errorEnvironment :: Environment where
  "errorEnvironment = exampleEnvironment\<lparr>pdftex := (\<lambda>f. Error ''ENOENT'')\<rparr>"

definition accessEnvironment :: Environment where
  "accessEnvironment = exampleEnvironment\<lparr>pdftex := (\<lambda>f. Error ''EACCES'')\<rparr>"

definition exitOneEnvironment :: Environment where
  "exitOneEnvironment = exampleEnvironment\<lparr>pdftex := (\<lambda>f. Exit 1)\<rparr>"

text \<open>
  The document after an edit that put a commented-out opening marker and a line \<open>X\<close>
  above the picture, and the edit itself.
\<close>

definition commentedDocument :: TextDocument where
  "commentedDocument =
     \<lparr>fsPath = ''a.tex'', eol = [newline],
      lines = [''A'', ''% '' @ beginKeyword @ ''tikzpicture} old'', ''X'',
               beginKeyword @ ''tikzpicture}'', ''draw'', endKeyword @ ''tikzpicture}'', ''C'']\<rparr>"

definition commentEdit :: TextDocumentContentChangeEvent where
  "commentEdit =
     \<lparr>crange = \<lparr>start = \<lparr>line = 1, character = 0\<rparr>, end' = \<lparr>line = 2, character = 0\<rparr>\<rparr>,
      ctext = ''% '' @ beginKeyword @ ''tikzpicture} old'' @ [newline] @ ''X'' @ [newline]\<rparr>"




definition editOverAll :: TextDocumentContentChangeEvent where
  "editOverAll =
     \<lparr>crange = \<lparr>start = \<lparr>line = 2, character = 0\<rparr>, end' = \<lparr>line = 4, character = 17\<rparr>\<rparr>,
      ctext = ''x'' @ [newline] @ ''y'' @ [newline] @ ''z''\<rparr>"

text \<open>A document in which the first opening marker stands on line 5.\<close>

definition lateMarkerDocument :: TextDocument where
  "lateMarkerDocument =
     \<lparr>fsPath = ''a.tex'', eol = [newline],
      lines = [''A'', ''B'', ''x'', ''y'', ''z'', beginKeyword @ ''tikzpicture}'', ''C'']\<rparr>"

text \<open>
  The document after the six lines from position (3, 0) to position (9, 0) of a longer one
  were deleted, and that edit.
\<close>

definition deletedLinesDocument :: TextDocument where
  "deletedLinesDocument =
     \<lparr>fsPath = ''a.tex'', eol = [newline],
      lines = [''A'', ''B'', beginKeyword @ ''tikzpicture}'', ''d'', ''e'', ''f'', ''g'', ''h'',
               ''i'', ''j'', ''k'', ''l'']\<rparr>"

definition deleteLines :: TextDocumentContentChangeEvent where
  "deleteLines =
     \<lparr>crange = \<lparr>start = \<lparr>line = 3, character = 0\<rparr>, end' = \<lparr>line = 9, character = 0\<rparr>\<rparr>,
      ctext = []\<rparr>"

subsection \<open>Notions used in the statements\<close>

text \<open>The files on which \<open>latexmk\<close> was run, in order: the recompilations in a trace.\<close>

fun latexmkRuns :: "effect list \<Rightarrow> string list" where
  "latexmkRuns [] = []"
| "latexmkRuns (Latexmk f # es) = f # latexmkRuns es"
| "latexmkRuns (e # es) = latexmkRuns es"

text \<open>
  Line \<open>n\<close> exists and holds no match of the marker starting with \<open>kw\<close>, looked for in
  the line after \<open>stripComments\<close> when \<open>stripped\<close> is set, and in the line as it is
  otherwise.
\<close>

definition lineMisses :: "string \<Rightarrow> bool \<Rightarrow> TextDocument \<Rightarrow> int \<Rightarrow> bool" where
  "lineMisses kw stripped doc n =
     (case lineAt doc n of
        Inl e \<Rightarrow> False
      | Inr l \<Rightarrow> regexMatch kw (if stripped then stripComments l else l) = None)"

section \<open>Properties\<close>

subsection \<open>Auxiliary facts\<close>

lemmas example_defs = exampleDocument_def examplePicture_def exampleCollection_def
  exampleState_def exampleEnvironment_def

lemmas text_defs = beginKeyword_def endKeyword_def backslash_def newline_def matchAt_def
  isWordChar_def stripComments_def

lemma translate_line:
  "0 \<le> line p + d \<Longrightarrow> 0 \<le> character p \<Longrightarrow>
   translate p d 0 = Inr \<lparr>line = line p + d, character = character p\<rparr>"
  by (simp add: translate_def newPosition_def)

lemma newRange_translated:
  "isBeforeOrEqual a b \<Longrightarrow>
   newRange \<lparr>line = line a + d, character = character a\<rparr> \<lparr>line = line b + d, character = character b\<rparr>
     = \<lparr>start = \<lparr>line = line a + d, character = character a\<rparr>,
        end' = \<lparr>line = line b + d, character = character b\<rparr>\<rparr>"
  by (auto simp: newRange_def isBefore_def isBeforeOrEqual_def split: if_splits)

lemma newlineCount_nonneg: "0 \<le> newlineCount s"
  by (simp add: newlineCount_def)

lemma isEqual_iff: "isEqual r s \<longleftrightarrow> r = s"
  by (auto simp: isEqual_def isEqualPos_def intro!: Range.equality Position.equality)

lemma findEntry_Some:
  "findEntry h r ps = Some p \<Longrightarrow> p \<in> set ps \<and> isEqual (range' (h p)) r"
  by (induction ps) (auto split: if_splits)

lemma findEntry_None:
  "findEntry h r ps = None \<longleftrightarrow> (\<forall>q \<in> set ps. \<not> isEqual (range' (h q)) r)"
  by (induction ps) auto

lemma findEntry_append:
  "findEntry h r (ps @ qs) =
     (case findEntry h r ps of Some p \<Rightarrow> Some p | None \<Rightarrow> findEntry h r qs)"
  by (induction ps) auto

lemma findEntry_store:
  "\<forall>q \<in> set ps. h q = h' q \<Longrightarrow> findEntry h r ps = findEntry h' r ps"
  by (induction ps) auto

lemma getTikzEntry_found:
  "findEntry (pictures st) r (tikzPictures (collections st c)) = Some p \<Longrightarrow>
   getTikzEntry env c r cont st = (p, st)"
  by (simp add: getTikzEntry_def Let_def)

lemma getTikzEntry_resolves:
  assumes fresh: "list_all (\<lambda>q. q < nextRef st) (tikzPictures (collections st c))"
    and first: "getTikzEntry env c r cont st = (p, st1)"
  shows "findEntry (pictures st1) r (tikzPictures (collections st1 c)) = Some p"
proof (cases "findEntry (pictures st) r (tikzPictures (collections st c))")
  case (Some p0)
  with first show ?thesis by (simp add: getTikzEntry_def Let_def)
next
  case None
  let ?col = "collections st c"
  let ?n = "nextRef st"
  from None first have p: "p = ?n" by (auto simp: getTikzEntry_def Let_def)
  from None first have pics: "tikzPictures (collections st1 c) = tikzPictures ?col @ [?n]"
    by (auto simp: getTikzEntry_def Let_def)
  from None first have rng: "range' (pictures st1 ?n) = r"
    by (auto simp: getTikzEntry_def Let_def)
  from None first have old: "\<forall>q \<in> set (tikzPictures ?col). pictures st1 q = pictures st q"
    using fresh by (auto simp: getTikzEntry_def Let_def list_all_iff)
  have "findEntry (pictures st1) r (tikzPictures ?col) = None"
    using findEntry_store [OF old, of r] None by simp
  then show ?thesis
    by (simp add: pics findEntry_append rng isEqual_iff p)
qed

lemma getTikzEntry_keeps_fresh:
  assumes "list_all (\<lambda>q. q < nextRef st) (tikzPictures (collections st c))"
    and "getTikzEntry env c r cont st = (p, st')"
  shows "list_all (\<lambda>q. q < nextRef st') (tikzPictures (collections st' c))"
proof (cases "findEntry (pictures st) r (tikzPictures (collections st c))")
  case (Some p0)
  with assms show ?thesis by (simp add: getTikzEntry_def Let_def)
next
  case None
  with assms(2) have "nextRef st' = Suc (nextRef st)"
    "tikzPictures (collections st' c) = tikzPictures (collections st c) @ [nextRef st]"
    by (auto simp: getTikzEntry_def Let_def)
  with assms(1) show ?thesis by (auto simp: list_all_iff)
qed

lemma latexmkRuns_append: "latexmkRuns (xs @ ys) = latexmkRuns xs @ latexmkRuns ys"
  by (induction xs rule: latexmkRuns.induct) auto

lemma foldl_update_frame:
  "collections (foldl (\<lambda>s p. updateTikzPicture env p s) st ps) = collections st \<and>
   pictures (foldl (\<lambda>s p. updateTikzPicture env p s) st ps) = pictures st \<and>
   nextRef (foldl (\<lambda>s p. updateTikzPicture env p s) st ps) = nextRef st \<and>
   tikzCollections (foldl (\<lambda>s p. updateTikzPicture env p s) st ps) = tikzCollections st"
  by (induction ps arbitrary: st) (auto simp: updateTikzPicture_def Let_def)



lemma checkPreamble_frame:
  "pictures (snd (checkPreamble env c m st)) = pictures st \<and>
   tikzPictures (collections (snd (checkPreamble env c m st)) c) = tikzPictures (collections st c)"
  by (simp add: checkPreamble_def Let_def precompilePreamble_def foldl_update_frame
        split: processEvent.splits)

lemma viewAfterEntry_frame:
  "pictures (snd (viewAfterEntry env c p r st)) = pictures st \<and>
   tikzPictures (collections (snd (viewAfterEntry env c p r st)) c) = tikzPictures (collections st c)"
proof -
  obtain res st' where cp: "checkPreamble env c (Some (line (start r))) st = (res, st')"
    by (cases "checkPreamble env c (Some (line (start r))) st")
  with checkPreamble_frame [of env c "Some (line (start r))" st]
  have "pictures st' = pictures st"
    "tikzPictures (collections st' c) = tikzPictures (collections st c)" by simp_all
  then show ?thesis
    by (cases res) (simp_all add: viewAfterEntry_def cp updateTikzPicture_def Let_def)
qed





subsection \<open>The preamble cache\<close>




subsection \<open>Edits outside a picture\<close>

text \<open>
  Claim C2. When the replaced range of an edit ends strictly before the start of a tracked
  picture, the step of \<open>onFileChange\<close> for that picture and that edit moves both ends of
  the picture's range by \<open>d\<close> lines, where \<open>d\<close> is the number of newlines in the
  replacement text minus the number of lines the replaced range spans. Columns, content,
  temp file and timestamp stay as they are, nothing else in the state changes, and the
  picture is not queued for recompilation.
\<close>

theorem edit_before_fragment_translates:
  assumes wfp: "wfRange (range' (pictures st p))"
    and wfc: "wfRange (crange change)"
    and before: "isBefore (end' (crange change)) (start (range' (pictures st p)))"
    and d: "d = newlineCount (ctext change) - (line (end' (crange change)) - line (start (crange change)))"
  shows "applyChange doc c p change (tu, st) =
           Inr (tu, st\<lparr>pictures := (pictures st)
                  (p := (pictures st p)
                     \<lparr>range' := \<lparr>start = \<lparr>line = line (start (range' (pictures st p))) + d,
                                           character = character (start (range' (pictures st p)))\<rparr>,
                                  end' = \<lparr>line = line (end' (range' (pictures st p))) + d,
                                          character = character (end' (range' (pictures st p)))\<rparr>\<rparr>\<rparr>)\<rparr>)"
proof -
  let ?R = "range' (pictures st p)"
  let ?C = "crange change"
  have ld: "lineDeltaOf change = d" by (simp add: lineDeltaOf_def d)
  have notAfter: "\<not> isBefore (end' ?R) (start ?C)"
    using wfp wfc before by (auto simp: wfRange_def isBefore_def isBeforeOrEqual_def split: if_splits)
  have after: "isAfter (start ?R) (end' ?C)"
    using before by (auto simp: isAfter_def isBefore_def isBeforeOrEqual_def split: if_splits)
  have l1: "line (end' ?C) \<le> line (start ?R)"
    using before by (auto simp: isBefore_def split: if_splits)
  have l2: "line (start ?R) \<le> line (end' ?R)"
    using wfp by (auto simp: wfRange_def isBeforeOrEqual_def split: if_splits)
  have l3: "0 \<le> line (start ?C)" using wfc by (simp add: wfRange_def wfPosition_def)
  have dlow: "- (line (end' ?C) - line (start ?C)) \<le> d"
    using newlineCount_nonneg [of "ctext change"] by (simp add: d)
  have s0: "0 \<le> line (start ?R) + d" using l1 l3 dlow by linarith
  have e0: "0 \<le> line (end' ?R) + d" using s0 l2 by linarith
  have cs: "0 \<le> character (start ?R)" "0 \<le> character (end' ?R)"
    using wfp by (simp_all add: wfRange_def wfPosition_def)
  have ord: "isBeforeOrEqual (start ?R) (end' ?R)" using wfp by (simp add: wfRange_def)
  show ?thesis
    by (simp add: applyChange_def Let_def ld notAfter after bindE_def
          translate_line [OF s0 cs(1)] translate_line [OF e0 cs(2)] newRange_translated [OF ord])
qed

theorem edit_before_fragment_translates_witness:
  "wfRange (range' (pictures exampleState 1)) \<and> wfRange (crange editAbove) \<and>
   isBefore (end' (crange editAbove)) (start (range' (pictures exampleState 1))) \<and>
   newlineCount (ctext editAbove)
     - (line (end' (crange editAbove)) - line (start (crange editAbove))) = - 1 \<and>
   applyChange exampleDocument 0 1 editAbove ([], exampleState) =
     Inr ([], exampleState\<lparr>pictures := (pictures exampleState)
            (1 := examplePicture
               \<lparr>range' := \<lparr>start = \<lparr>line = 1, character = 0\<rparr>,
                            end' = \<lparr>line = 3, character = 17\<rparr>\<rparr>\<rparr>)\<rparr>)"
proof -
  have a: "wfRange (range' (pictures exampleState 1))"
    by (simp add: example_defs wfRange_def wfPosition_def isBeforeOrEqual_def)
  have b: "wfRange (crange editAbove)"
    by (simp add: editAbove_def wfRange_def wfPosition_def isBeforeOrEqual_def)
  have c: "isBefore (end' (crange editAbove)) (start (range' (pictures exampleState 1)))"
    by (simp add: example_defs editAbove_def isBefore_def)
  have d: "- 1 = newlineCount (ctext editAbove)
     - (line (end' (crange editAbove)) - line (start (crange editAbove)))"
    by (simp add: editAbove_def newlineCount_def newline_def)
  show ?thesis
    using a b c d [symmetric] edit_before_fragment_translates [OF a b c d, of exampleDocument 0 "[]"]
    by (simp add: example_defs)
qed




subsection \<open>The pass over the pictures\<close>

text \<open>
  Claim C4: every picture whose viewer has no client at the start of a pass is removed
  from the array and cleaned up in that pass, also when several such pictures follow one
  another. The code does not do this. The loop removes the current picture with \<open>splice\<close>
  while the iterator of \<open>for ... of\<close> runs over the same array: the next picture moves
  into the slot just visited and is skipped. With two pictures, both without a client, the
  pass removes and cleans up the first only; the second is still tracked afterwards.
\<close>

theorem viewerless_neighbour_survives:
  "noViewer closedViewerEnvironment (tempFile (pictures twoPictureState 1)) \<and>
   noViewer closedViewerEnvironment (tempFile (pictures twoPictureState 2)) \<and>
   tikzPictures (collections twoPictureState 0) = [1, 2] \<and>
   onFileChange closedViewerEnvironment twoPictureDocument [editBelow] False twoPictureState =
     Inr (twoPictureState
            \<lparr>collections := (collections twoPictureState)
               (0 := exampleCollection\<lparr>tikzPictures := [2], lastChange := 5000\<rparr>),
             trace := [CheckPreambleCall 0, LatexmkClean ''/t/1.tex'', Unlink ''/t/1.tex'']\<rparr>)"
  by (simp add: onFileChange_def Let_def setLastChange_def forPictures.simps noViewer_def
        closedViewerEnvironment_def twoPictureState_def twoPictureDocument_def secondPicture_def example_defs
        cleanupTikzPicture_def splicePicture_def splice1_def bindE_def)

lemma timeout_test_reads_fresh_lastChange:
  assumes "tikzCollections st (fsPath doc) = Some c"
    and "delay env \<noteq> 0"
    and "delay env \<le> now env 0 - lastChange (collections st c)"
    and "now env 2 - now env 1 \<le> timeout env"
  shows "onFileChange env doc changes waitedDelay st =
           bindE (forPictures env doc c changes 0
                    ([], (setLastChange c (now env 1) st)
                           \<lparr>trace := trace st @ [CheckPreambleCall c]\<rparr>))
             (\<lambda>(tikzPicturesToUpdate, st2).
                Inr (foldl (\<lambda>s p. updateTikzPicture env p s) st2 tikzPicturesToUpdate))"
  using assms by (simp add: onFileChange_def Let_def setLastChange_def)

text \<open>
  Claim C5: a batch that arrives later than \<open>timeout\<close> after the last recorded activity is
  dropped, with no preamble check and no recompilation. The code does not do this. It
  stores the current time in \<open>lastChange\<close> immediately before it compares the time elapsed
  since \<open>lastChange\<close> with \<open>timeout\<close>, so the difference it tests is the time between two
  adjacent statements: whenever that is within \<open>timeout\<close>, the pass runs, however old
  the last activity is (lemma \<open>timeout_test_reads_fresh_lastChange\<close>). In the example the last activity is 5000 ms old
  and \<open>timeout\<close> is 1000 ms: the preamble check is started and the edited picture is
  recompiled.
\<close>

theorem stale_batch_is_processed:
  "timeout exampleEnvironment
     < now exampleEnvironment 0 - lastChange (collections exampleState 0) \<and>
   \<not> isl (onFileChange exampleEnvironment exampleDocument [editInside] False exampleState) \<and>
   hd (trace (projr (onFileChange exampleEnvironment exampleDocument [editInside] False
                        exampleState))) = CheckPreambleCall 0 \<and>
   latexmkRuns (trace (projr (onFileChange exampleEnvironment exampleDocument [editInside] False
                                 exampleState))) = [''/t/1.tex'']"
  by (simp add: onFileChange_def Let_def setLastChange_def forPictures.simps noViewer_def
        example_defs editInside_def applyChange_def lineDeltaOf_def newlineCount_def
        isBefore_def isAfter_def isBeforeOrEqual_def processModificationToTikzPicture_def
        startLocation_def endLocation_def translate_def newRange_def
        updateTikzPicture_def bindE_def newline_def)

subsection \<open>Re-anchoring\<close>

text \<open>
  Claim C6: when the edit starts at or before the picture's start, the forward search for
  the opening marker matches every candidate line after stripping its comments, and a
  match counts only before the picture's prior end. The code does not do this. The test of
  the picture's own start line and the search for the closing marker call \<open>stripComments\<close>,
  but the forward loop matches the line as it is. In the document below, line 1 is a
  comment that mentions the marker and the marker itself is on line 3; the edit ends
  exactly at the picture's old start. The new start is column 2 of the comment line.
\<close>

theorem commented_marker_becomes_start:
  "regexMatch beginKeyword (stripComments (lines commentedDocument ! 1)) = None \<and>
   regexMatch beginKeyword (stripComments (lines commentedDocument ! 3)) = Some (0, 19) \<and>
   startLocation commentedDocument examplePicture commentEdit =
     Inr (Some \<lparr>line = 1, character = 2\<rparr>) \<and>
   range' (pictures (snd (projr (applyChange commentedDocument 0 1 commentEdit
                                   ([], exampleState)))) 1) =
     \<lparr>start = \<lparr>line = 1, character = 2\<rparr>, end' = \<lparr>line = 5, character = 17\<rparr>\<rparr>"
  by (simp add: applyChange_def Let_def lineDeltaOf_def newlineCount_def
        isBefore_def isAfter_def isBeforeOrEqual_def processModificationToTikzPicture_def
        startLocation_def endLocation_def translate_def newRange_def newPosition_def
        commentedDocument_def example_defs commentEdit_def
        lineAt_def bindE_def startLoop.simps text_defs)

text \<open>
  The same loop also reads one line beyond the prior end: its condition lets it continue
  while the line just read is at most the end line. A marker on line 5 is accepted for a
  picture that ended on line 4.
\<close>

lemma start_search_passes_prior_end:
  "end' (range' examplePicture) = \<lparr>line = 4, character = 17\<rparr> \<and>
   startLocation lateMarkerDocument examplePicture editOverAll =
     Inr (Some \<lparr>line = 5, character = 0\<rparr>)"
  by (simp add: startLocation_def lateMarkerDocument_def examplePicture_def editOverAll_def
       lineAt_def bindE_def startLoop.simps newPosition_def text_defs)






text \<open>
  Outside the proviso the re-anchoring fails. After the deletion of six lines that starts
  inside the picture and ends below it, the search for the closing marker reads lines 2
  to 10, which exist, and finds nothing; the previous end, on line 4, is then moved by
  \<open>-6\<close> lines, and the constructor of the position throws.
\<close>

lemma closing_miss_negative_line_throws:
  "list_all (lineMisses endKeyword True deletedLinesDocument) [2 .. 10] \<and>
   lineDeltaOf deleteLines = - 6 \<and>
   processModificationToTikzPicture deletedLinesDocument examplePicture deleteLines (- 6) =
     Inl IllegalArgument \<and>
   applyChange deletedLinesDocument 0 1 deleteLines ([], exampleState) = Inl IllegalArgument"
  by (simp add: applyChange_def Let_def lineDeltaOf_def newlineCount_def lineMisses_def
        isBefore_def isAfter_def isBeforeOrEqual_def processModificationToTikzPicture_def
        startLocation_def endLocation_def translate_def newRange_def newPosition_def
        deletedLinesDocument_def example_defs deleteLines_def
        lineAt_def bindE_def endLoop.simps text_defs)

subsection \<open>Failure of the precompilation\<close>

text \<open>
  Claim C8: when the preamble has changed and the precompile step fails, the failure
  reaches the caller of the refresh as an error and the pictures are not recompiled in
  that cycle. The code does not do this for a \<open>pdftex\<close> run that fails with a non-zero
  exit code. \<open>precompilePreamble\<close> rejects its promise on the \<open>error\<close> event, but its
  handler of the \<open>exit\<close> event resolves without looking at the code, although the
  recompilation of a picture, which runs \<open>latexmk\<close> through \<open>execSync\<close>, does treat a
  non-zero exit as a failure. With exit code 1 the refresh returns \<open>updated\<close> and the
  tracked picture is recompiled against the preamble that failed to compile.
\<close>

theorem failed_precompile_is_dropped:
  "generatePreamble exitOneEnvironment (collections exampleState 0) None
     \<noteq> preamble (collections exampleState 0) \<and>
   pdftex exitOneEnvironment (pathJoin (tempDir (collections exampleState 0)) ''preamble.tex'')
     = Exit 1 \<and>
   fst (checkPreamble exitOneEnvironment 0 None exampleState) = Inr Updated \<and>
   latexmkRuns (trace (snd (checkPreamble exitOneEnvironment 0 None exampleState)))
     = [''/t/1.tex'']"
  by (simp add: checkPreamble_def Let_def precompilePreamble_def exitOneEnvironment_def
        example_defs updateTikzPicture_def)

text \<open>
  What the code does surface is the \<open>error\<close> event of the process: then \<open>checkPreamble\<close>
  ends with that error and no picture is recompiled.
\<close>

theorem precompile_error_event_surfaced:
  assumes "generatePreamble env (collections st c) m \<noteq> preamble (collections st c)"
    and "pdftex env (pathJoin (tempDir (collections st c)) ''preamble.tex'') = Error err"
  shows "fst (checkPreamble env c m st) = Inl (ProcessError err) \<and>
         latexmkRuns (trace (snd (checkPreamble env c m st))) = latexmkRuns (trace st)"
  using assms
  by (simp add: checkPreamble_def Let_def precompilePreamble_def latexmkRuns_append)

theorem precompile_error_event_surfaced_witness:
  "generatePreamble accessEnvironment (collections exampleState 0) (Some 2)
     \<noteq> preamble (collections exampleState 0) \<and>
   pdftex accessEnvironment (pathJoin (tempDir (collections exampleState 0)) ''preamble.tex'')
     = Error ''EACCES'' \<and>
   fst (checkPreamble accessEnvironment 0 (Some 2) exampleState) = Inl (ProcessError ''EACCES'') \<and>
   latexmkRuns (trace (snd (checkPreamble accessEnvironment 0 (Some 2) exampleState))) = []"
proof -
  have a: "generatePreamble accessEnvironment (collections exampleState 0) (Some 2)
     \<noteq> preamble (collections exampleState 0)"
    by (simp add: accessEnvironment_def example_defs)
  have b: "pdftex accessEnvironment (pathJoin (tempDir (collections exampleState 0)) ''preamble.tex'')
     = Error ''EACCES''"
    by (simp add: accessEnvironment_def example_defs)
  have c: "latexmkRuns (trace exampleState) = []" by (simp add: example_defs)
  show ?thesis
    using a b c precompile_error_event_surfaced [OF a b] by simp
qed

text \<open>
  Even that error has no caller in \<open>onFileChange\<close>, which starts the refresh without
  awaiting it: with a changed preamble and a \<open>pdftex\<close> that raises the \<open>error\<close> event,
  the pass still recompiles the edited picture.
\<close>

lemma onFileChange_recompiles_without_waiting:
  "generatePreamble errorEnvironment (collections exampleState 0) None
     \<noteq> preamble (collections exampleState 0) \<and>
   pdftex errorEnvironment (pathJoin (tempDir (collections exampleState 0)) ''preamble.tex'')
     = Error ''ENOENT'' \<and>
   \<not> isl (onFileChange errorEnvironment exampleDocument [editInside] False exampleState) \<and>
   latexmkRuns (trace (projr (onFileChange errorEnvironment exampleDocument [editInside] False
                                 exampleState))) = [''/t/1.tex'']"
  by (simp add: onFileChange_def Let_def setLastChange_def forPictures.simps noViewer_def
        errorEnvironment_def example_defs editInside_def applyChange_def lineDeltaOf_def
        newlineCount_def isBefore_def isAfter_def isBeforeOrEqual_def
        processModificationToTikzPicture_def startLocation_def endLocation_def translate_def
        newRange_def updateTikzPicture_def bindE_def newline_def)

subsection \<open>Looking up a picture by its range\<close>

text \<open>
  Claim C9. Let a first request for the range \<open>r\<close> resolve to the entry \<open>p\<close> and let
  \<open>view\<close> finish its work for it. The entry \<open>p\<close> is then a tracked picture of the
  collection whose range is \<open>r\<close>, and the first request has added at most this one entry
  to the array. A second request for a range with the same start and end resolves to the
  same entry \<open>p\<close>, which is still tracked, is the same picture object with the same range
  and temp file, and the array of the collection is the same as after the first request:
  no second entry is made. The assumption on \<open>nextRef\<close> says that the next free address
  is above the addresses in the array.
\<close>

theorem view_same_range_same_entry:
  assumes fresh: "list_all (\<lambda>q. q < nextRef st) (tikzPictures (collections st c))"
    and first: "getTikzEntry env c r cont st = (p, st1)"
    and rest: "st2 = snd (viewAfterEntry env c p r st1)"
    and same: "isEqual r' r"
  shows "getTikzEntry env' c r' cont' st2 = (p, st2) \<and>
         tempFile (pictures st2 p) = tempFile (pictures st1 p) \<and>
         tikzPictures (collections st2 c) = tikzPictures (collections st1 c) \<and>
         p \<in> set (tikzPictures (collections st1 c)) \<and>
         isEqual (range' (pictures st1 p)) r \<and>
         (tikzPictures (collections st1 c) = tikzPictures (collections st c) \<or>
          tikzPictures (collections st1 c) = tikzPictures (collections st c) @ [p]) \<and>
         p \<in> set (tikzPictures (collections st2 c)) \<and>
         pictures st2 p = pictures st1 p \<and>
         isEqual (range' (pictures st2 p)) r'"
proof -
  have fr: "pictures st2 = pictures st1"
    "tikzPictures (collections st2 c) = tikzPictures (collections st1 c)"
    using viewAfterEntry_frame [of env c p r st1] rest by simp_all
  from same have r': "r' = r" by (simp add: isEqual_iff)
  have found: "findEntry (pictures st1) r (tikzPictures (collections st1 c)) = Some p"
    by (rule getTikzEntry_resolves [OF fresh first])
  then have "findEntry (pictures st2) r' (tikzPictures (collections st2 c)) = Some p"
    by (simp add: fr r')
  from getTikzEntry_found [OF this]
  have second: "getTikzEntry env' c r' cont' st2 = (p, st2)" .
  have tracked: "p \<in> set (tikzPictures (collections st1 c))"
    "isEqual (range' (pictures st1 p)) r"
    using findEntry_Some [OF found] by simp_all
  have grown: "tikzPictures (collections st1 c) = tikzPictures (collections st c) \<or>
      tikzPictures (collections st1 c) = tikzPictures (collections st c) @ [p]"
    using first
    by (cases "findEntry (pictures st) r (tikzPictures (collections st c))")
       (auto simp: getTikzEntry_def Let_def)
  from second tracked grown fr r' show ?thesis by simp
qed

lemma first_view_example:
  "getTikzEntry exampleEnvironment 0 rangeBelow ''first'' exampleState =
     (2, snd (getTikzEntry exampleEnvironment 0 rangeBelow ''first'' exampleState))"
proof -
  have "fst (getTikzEntry exampleEnvironment 0 rangeBelow ''first'' exampleState) = 2"
    by (simp add: getTikzEntry_def Let_def example_defs rangeBelow_def isEqual_def isEqualPos_def)
  then show ?thesis by (metis prod.collapse)
qed

theorem view_same_range_same_entry_witness:
  "list_all (\<lambda>q. q < nextRef exampleState) (tikzPictures (collections exampleState 0)) \<and>
   isEqual rangeBelow rangeBelow \<and>
   fst (getTikzEntry exampleEnvironment 0 rangeBelow ''second''
          (snd (viewAfterEntry exampleEnvironment 0 2 rangeBelow
             (snd (getTikzEntry exampleEnvironment 0 rangeBelow ''first'' exampleState))))) = 2 \<and>
   2 \<in> set (tikzPictures (collections
          (snd (getTikzEntry exampleEnvironment 0 rangeBelow ''first'' exampleState)) 0)) \<and>
   isEqual (range' (pictures
          (snd (getTikzEntry exampleEnvironment 0 rangeBelow ''first'' exampleState)) 2))
     rangeBelow"
proof -
  have a: "list_all (\<lambda>q. q < nextRef exampleState) (tikzPictures (collections exampleState 0))"
    by (simp add: example_defs)
  have b: "isEqual rangeBelow rangeBelow"
    by (simp add: isEqual_def isEqualPos_def)
  show ?thesis
    using a b view_same_range_same_entry [where env' = exampleEnvironment and cont' = "''second''",
        OF a first_view_example refl b]
    by simp
qed

text \<open>
  Claim C10. When some tracked picture of the collection has a range equal to the
  requested one, \<open>getTikzEntry\<close> returns a tracked picture with that range and the state
  it was given: the pictures keep content, range, temp file and timestamp, the array is
  the same, no address is used up, and the content passed with the request goes nowhere.
\<close>

theorem getTikzEntry_existing_unchanged:
  assumes "q \<in> set (tikzPictures (collections st c))"
    and "isEqual (range' (pictures st q)) r"
  shows "\<exists>p. getTikzEntry env c r cont st = (p, st) \<and>
             p \<in> set (tikzPictures (collections st c)) \<and>
             isEqual (range' (pictures st p)) r"
proof -
  from assms have "findEntry (pictures st) r (tikzPictures (collections st c)) \<noteq> None"
    by (auto simp: findEntry_None)
  then obtain p where p: "findEntry (pictures st) r (tikzPictures (collections st c)) = Some p"
    by auto
  then have "getTikzEntry env c r cont st = (p, st)"
    by (simp add: getTikzEntry_def Let_def)
  with findEntry_Some [OF p] show ?thesis by simp
qed

theorem getTikzEntry_existing_unchanged_witness:
  "1 \<in> set (tikzPictures (collections exampleState 0)) \<and>
   isEqual (range' (pictures exampleState 1)) (range' examplePicture) \<and>
   (\<exists>p. getTikzEntry exampleEnvironment 0 (range' examplePicture) ''fresh'' exampleState
          = (p, exampleState) \<and>
        p \<in> set (tikzPictures (collections exampleState 0)) \<and>
        isEqual (range' (pictures exampleState p)) (range' examplePicture))"
proof -
  have a: "1 \<in> set (tikzPictures (collections exampleState 0))"
    by (simp add: example_defs)
  have b: "isEqual (range' (pictures exampleState 1)) (range' examplePicture)"
    by (simp add: example_defs isEqual_def isEqualPos_def)
  show ?thesis
    using a b getTikzEntry_existing_unchanged [OF a b, of exampleEnvironment "''fresh''"]
    by simp
qed

end
